theory Spec2Isabelle
  imports Complex_Main
begin

section \<open>Numbers: float64 values\<close>

text \<open>
  The numbers of \<^verbatim>\<open>convert.py\<close> are Python floats and numpy float64 values, that is
  IEEE 754 binary64. A finite value is modelled by the real number it denotes, next to the
  three special values. Every arithmetic operation on finite values is the exact real
  result rounded to binary64: to the nearest representable value, ties to the even
  significand, with overflow to an infinity and gradual underflow through the subnormal
  range. On the special values the operations follow the IEEE rules numpy applies: a numpy
  division by zero returns an infinity or NaN (it only prints a RuntimeWarning), it does
  not raise. The one thing left out is the sign of zero: \<^verbatim>\<open>-0.0\<close> and \<^verbatim>\<open>0.0\<close>, which
  compare equal, are the one value \<open>Fin 0\<close>; no divisor of the program can be \<^verbatim>\<open>-0.0\<close>.
\<close>

datatype float64 = Fin real | PInf | NInf | NaN

text \<open>Rounding a real to the nearest integer, ties to the even one.\<close>

definition round_even :: "real \<Rightarrow> int" where
  "round_even y =
     (let f = \<lfloor>y\<rfloor>; r = y - of_int f
      in if r < 1 / 2 then f
         else if 1 / 2 < r then f + 1
         else if even f then f else f + 1)"

text \<open>
  The binary exponent of a non-zero real, not below the exponent -1022 of the subnormal
  numbers; the spacing of the binary64 values around \<open>x\<close> is 2 to the power
  \<open>exponent64 x - 52\<close>.
\<close>

definition exponent64 :: "real \<Rightarrow> int" where
  "exponent64 x = max \<lfloor>log 2 \<bar>x\<bar>\<rfloor> (- 1022)"

definition overflow_threshold :: real where
  "overflow_threshold = 2 ^ 1024"

text \<open>Rounding a real to binary64.\<close>

definition round64 :: "real \<Rightarrow> float64" where
  "round64 x =
     (if x = 0 then Fin 0
      else
        let q = 2 powr of_int (exponent64 x - 52);
            y = of_int (round_even (x / q)) * q
        in if overflow_threshold \<le> \<bar>y\<bar> then (if 0 < x then PInf else NInf) else Fin y)"

fun fneg :: "float64 \<Rightarrow> float64" where
  "fneg (Fin a) = Fin (- a)"
| "fneg PInf = NInf"
| "fneg NInf = PInf"
| "fneg NaN = NaN"

fun fadd :: "float64 \<Rightarrow> float64 \<Rightarrow> float64" where
  "fadd (Fin a) (Fin b) = round64 (a + b)"
| "fadd (Fin a) PInf = PInf"
| "fadd (Fin a) NInf = NInf"
| "fadd PInf (Fin b) = PInf"
| "fadd PInf PInf = PInf"
| "fadd PInf NInf = NaN"
| "fadd NInf (Fin b) = NInf"
| "fadd NInf PInf = NaN"
| "fadd NInf NInf = NInf"
| "fadd NaN b = NaN"
| "fadd a NaN = NaN"

definition fsub :: "float64 \<Rightarrow> float64 \<Rightarrow> float64" where
  "fsub a b = fadd a (fneg b)"

fun fmul :: "float64 \<Rightarrow> float64 \<Rightarrow> float64" where
  "fmul (Fin a) (Fin b) = round64 (a * b)"
| "fmul (Fin a) PInf = (if a = 0 then NaN else if 0 < a then PInf else NInf)"
| "fmul (Fin a) NInf = (if a = 0 then NaN else if 0 < a then NInf else PInf)"
| "fmul PInf (Fin b) = (if b = 0 then NaN else if 0 < b then PInf else NInf)"
| "fmul NInf (Fin b) = (if b = 0 then NaN else if 0 < b then NInf else PInf)"
| "fmul PInf PInf = PInf"
| "fmul PInf NInf = NInf"
| "fmul NInf PInf = NInf"
| "fmul NInf NInf = PInf"
| "fmul NaN b = NaN"
| "fmul a NaN = NaN"

fun fdiv :: "float64 \<Rightarrow> float64 \<Rightarrow> float64" where
  "fdiv (Fin a) (Fin b) =
     (if b = 0 then (if a = 0 then NaN else if 0 < a then PInf else NInf)
      else round64 (a / b))"
| "fdiv (Fin a) PInf = Fin 0"
| "fdiv (Fin a) NInf = Fin 0"
| "fdiv PInf (Fin b) = (if 0 \<le> b then PInf else NInf)"
| "fdiv NInf (Fin b) = (if 0 \<le> b then NInf else PInf)"
| "fdiv PInf PInf = NaN"
| "fdiv PInf NInf = NaN"
| "fdiv NInf PInf = NaN"
| "fdiv NInf NInf = NaN"
| "fdiv NaN b = NaN"
| "fdiv a NaN = NaN"

fun fsqrt :: "float64 \<Rightarrow> float64" where
  "fsqrt (Fin a) = (if a < 0 then NaN else round64 (sqrt a))"
| "fsqrt PInf = PInf"
| "fsqrt NInf = NaN"
| "fsqrt NaN = NaN"

text \<open>\<^verbatim>\<open>np.maximum\<close>, the operation \<^verbatim>\<open>np.max\<close> reduces with: NaN propagates.\<close>

fun fmax :: "float64 \<Rightarrow> float64 \<Rightarrow> float64" where
  "fmax (Fin a) (Fin b) = Fin (max a b)"
| "fmax (Fin a) PInf = PInf"
| "fmax (Fin a) NInf = Fin a"
| "fmax PInf (Fin b) = PInf"
| "fmax PInf PInf = PInf"
| "fmax PInf NInf = PInf"
| "fmax NInf (Fin b) = Fin b"
| "fmax NInf PInf = PInf"
| "fmax NInf NInf = NInf"
| "fmax NaN b = NaN"
| "fmax a NaN = NaN"


fun is_finite :: "float64 \<Rightarrow> bool" where
  "is_finite (Fin a) = True"
| "is_finite PInf = False"
| "is_finite NInf = False"
| "is_finite NaN = False"

text \<open>
  The values a float64 can hold: the special values and the reals that rounding leaves
  unchanged. Every number read from a JSON file is one of them.
\<close>

fun float64_value :: "float64 \<Rightarrow> bool" where
  "float64_value (Fin a) = (round64 a = Fin a)"
| "float64_value PInf = True"
| "float64_value NInf = True"
| "float64_value NaN = True"

section \<open>Data model\<close>

text \<open>
  A 3-vector (the shape \<^verbatim>\<open>(3,)\<close> arrays \<^verbatim>\<open>center\<close> and \<^verbatim>\<open>c2w[:3, 3]\<close>) and a
  4x4 matrix, row major. The JSON nested list \<^verbatim>\<open>frame["world_from_camera"]\<close>, the array
  \<^verbatim>\<open>np.array(...)\<close> made from it and the nested list \<^verbatim>\<open>c2w.tolist()\<close> are the same
  sixteen floats, so one type stands for the three of them. The type fixes the shape at
  4x4 and the entries at floats, as the pose format does. A matrix written with sixteen
  JSON integers would make an integer array, on which the in-place subtraction of the float
  \<^verbatim>\<open>center\<close> raises a casting error; such matrices are outside this model.
\<close>

datatype vec3 = Vec3 (vx: float64) (vy: float64) (vz: float64)

datatype row = Row float64 float64 float64 float64

datatype mat4 = Mat4 row row row row

text \<open>An input frame of \<^verbatim>\<open>poses.json\<close> and the document itself.\<close>

record pose_frame =
  rgb_path :: string
  world_from_camera :: mat4

record poses =
  frames :: "pose_frame list"

text \<open>
  \<^verbatim>\<open>intrinsics_rgb.json\<close>. The program never inspects the six values, so their type
  is left open.
\<close>

record 'v intrinsics =
  fx :: 'v
  fy :: 'v
  cx :: 'v
  cy :: 'v
  width :: 'v
  height :: 'v

text \<open>An output frame and the manifest \<^verbatim>\<open>output_data\<close> written to \<^verbatim>\<open>transforms.json\<close>.\<close>

record out_frame =
  file_path :: string
  transform_matrix :: mat4

record 'v manifest =
  fl_x :: 'v
  fl_y :: 'v
  cx :: 'v
  cy :: 'v
  w :: 'v
  h :: 'v
  sk_x :: float64
  sk_y :: float64
  k1 :: float64
  k2 :: float64
  p1 :: float64
  p2 :: float64
  is_fisheye :: bool
  sphere_center :: "float64 list"
  sphere_radius :: float64
  aabb_scale :: int
  frames :: "out_frame list"

datatype error = IndexError | ValueError

section \<open>The numpy operations the program uses\<close>

text \<open>The slice \<^verbatim>\<open>c2w[:3, 3]\<close>: column 3 of rows 0 to 2.\<close>

fun col3 :: "row \<Rightarrow> float64" where
  "col3 (Row a b c d) = d"

fun translation :: "mat4 \<Rightarrow> vec3" where
  "translation (Mat4 r0 r1 r2 r3) = Vec3 (col3 r0) (col3 r1) (col3 r2)"

text \<open>\<^verbatim>\<open>c2w[:3, 3] -= center\<close>\<close>

fun isub_col3 :: "row \<Rightarrow> float64 \<Rightarrow> row" where
  "isub_col3 (Row a b c d) v = Row a b c (fsub d v)"

fun isub_translation :: "mat4 \<Rightarrow> vec3 \<Rightarrow> mat4" where
  "isub_translation (Mat4 r0 r1 r2 r3) (Vec3 x y z) =
     Mat4 (isub_col3 r0 x) (isub_col3 r1 y) (isub_col3 r2 z) r3"

text \<open>\<^verbatim>\<open>c2w[:3, 3] *= scale_factor\<close>\<close>

fun imul_col3 :: "row \<Rightarrow> float64 \<Rightarrow> row" where
  "imul_col3 (Row a b c d) s = Row a b c (fmul d s)"

fun imul_translation :: "mat4 \<Rightarrow> float64 \<Rightarrow> mat4" where
  "imul_translation (Mat4 r0 r1 r2 r3) s =
     Mat4 (imul_col3 r0 s) (imul_col3 r1 s) (imul_col3 r2 s) r3"

text \<open>
  \<^verbatim>\<open>np.mean(cam_centers, axis=0)\<close>: the rows are added up one after the other, from the
  first to the last, into an accumulator that starts at zero, and the three sums are then
  divided by the number of rows.
\<close>

fun vadd :: "vec3 \<Rightarrow> vec3 \<Rightarrow> vec3" where
  "vadd (Vec3 a b c) (Vec3 x y z) = Vec3 (fadd a x) (fadd b y) (fadd c z)"

fun vdiv :: "vec3 \<Rightarrow> float64 \<Rightarrow> vec3" where
  "vdiv (Vec3 a b c) s = Vec3 (fdiv a s) (fdiv b s) (fdiv c s)"

definition np_mean :: "vec3 list \<Rightarrow> vec3" where
  "np_mean ts =
     vdiv (foldl vadd (Vec3 (Fin 0) (Fin 0) (Fin 0)) ts) (Fin (real (length ts)))"

text \<open>\<^verbatim>\<open>cam_centers - center\<close>, one row of it.\<close>

fun vsub :: "vec3 \<Rightarrow> vec3 \<Rightarrow> vec3" where
  "vsub (Vec3 a b c) (Vec3 x y z) = Vec3 (fsub a x) (fsub b y) (fsub c z)"

text \<open>
  \<^verbatim>\<open>np.linalg.norm(..., axis=1)\<close>, one row of it: the squares of the three components
  are added from left to right and the root of the sum is taken.
\<close>

fun norm3 :: "vec3 \<Rightarrow> float64" where
  "norm3 (Vec3 a b c) = fsqrt (fadd (fadd (fmul a a) (fmul b b)) (fmul c c))"

text \<open>\<^verbatim>\<open>np.max\<close> of a one-dimensional array: a ValueError on an array of size zero.\<close>

fun np_max :: "float64 list \<Rightarrow> error + float64" where
  "np_max [] = Inl ValueError"
| "np_max (d # ds) = Inr (foldl fmax d ds)"

section \<open>The program\<close>

text \<open>
  Lines 52 to 64: the first loop fills \<^verbatim>\<open>all_c2w\<close> and \<^verbatim>\<open>frames_buffer\<close>, one entry
  per input frame, in order.
\<close>

primrec collect_c2w :: "pose_frame list \<Rightarrow> mat4 list" where
  "collect_c2w [] = []"
| "collect_c2w (frame # rest) = world_from_camera frame # collect_c2w rest"

primrec collect_buffer :: "pose_frame list \<Rightarrow> (string \<times> mat4) list" where
  "collect_buffer [] = []"
| "collect_buffer (frame # rest) =
     (rgb_path frame, world_from_camera frame) # collect_buffer rest"

text \<open>
  Lines 69 to 82: \<^verbatim>\<open>center\<close>, \<^verbatim>\<open>max_dist\<close> and \<^verbatim>\<open>scale_factor\<close>. With no frame
  \<^verbatim>\<open>np.array([])\<close> is one-dimensional and the index \<^verbatim>\<open>all_c2w[:, :3, 3]\<close> raises
  IndexError.
\<close>

definition normalization :: "mat4 list \<Rightarrow> error + (vec3 \<times> float64 \<times> float64)" where
  "normalization all_c2w =
     (if all_c2w = [] then Inl IndexError
      else
        let cam_centers = map translation all_c2w;
            center = np_mean cam_centers
        in case np_max (map (\<lambda>t. norm3 (vsub t center)) cam_centers) of
             Inl e \<Rightarrow> Inl e
           | Inr max_dist \<Rightarrow> Inr (center, max_dist, fdiv (Fin 2) max_dist))"

text \<open>
  Lines 88 to 101: the second loop. Each frame owns its array, and \<^verbatim>\<open>center\<close> and
  \<^verbatim>\<open>scale_factor\<close> were computed from a copy, so the in-place updates of one frame
  change nothing another frame reads.
\<close>

primrec apply_transformation ::
  "(string \<times> mat4) list \<Rightarrow> vec3 \<Rightarrow> float64 \<Rightarrow> out_frame list" where
  "apply_transformation [] center scale_factor = []"
| "apply_transformation (frame_buf # rest) center scale_factor =
     \<lparr>file_path = fst frame_buf,
      transform_matrix =
        imul_translation (isub_translation (snd frame_buf) center) scale_factor\<rparr>
     # apply_transformation rest center scale_factor"

text \<open>
  \<^verbatim>\<open>main\<close>: \<open>Inr\<close> is the manifest written to \<^verbatim>\<open>OUTPUT_JSON\<close>; \<open>Inl\<close> is the
  exception that ends the run before line 103, so that nothing is written.
\<close>

definition main :: "poses \<Rightarrow> 'v intrinsics \<Rightarrow> error + 'v manifest" where
  "main poses_data intr =
     (let output_data =
            \<lparr>fl_x = fx intr, fl_y = fy intr,
             cx = intrinsics.cx intr, cy = intrinsics.cy intr,
             w = width intr, h = height intr,
             sk_x = Fin 0, sk_y = Fin 0, k1 = Fin 0, k2 = Fin 0, p1 = Fin 0, p2 = Fin 0,
             is_fisheye = False,
             sphere_center = [Fin 0, Fin 0, Fin 0],
             sphere_radius = Fin 1,
             aabb_scale = 1,
             frames = []\<rparr>;
          all_c2w = collect_c2w (poses.frames poses_data);
          frames_buffer = collect_buffer (poses.frames poses_data)
      in case normalization all_c2w of
           Inl e \<Rightarrow> Inl e
         | Inr (center, max_dist, scale_factor) \<Rightarrow>
             Inr (output_data\<lparr>frames :=
                    manifest.frames output_data
                    @ apply_transformation frames_buffer center scale_factor\<rparr>))"

section \<open>Observations used to state the properties\<close>

text \<open>The rotation block \<^verbatim>\<open>c2w[:3, :3]\<close> and the bottom row \<^verbatim>\<open>c2w[3]\<close>.\<close>

fun rot_row :: "row \<Rightarrow> float64 \<times> float64 \<times> float64" where
  "rot_row (Row a b c d) = (a, b, c)"

fun rotation ::
  "mat4 \<Rightarrow> (float64 \<times> float64 \<times> float64) \<times> (float64 \<times> float64 \<times> float64)
          \<times> (float64 \<times> float64 \<times> float64)" where
  "rotation (Mat4 r0 r1 r2 r3) = (rot_row r0, rot_row r1, rot_row r2)"

fun bottom_row :: "mat4 \<Rightarrow> row" where
  "bottom_row (Mat4 r0 r1 r2 r3) = r3"

text \<open>The translations of the frames of a pose file and of a manifest, in order.\<close>

definition in_translations :: "poses \<Rightarrow> vec3 list" where
  "in_translations p = map (\<lambda>f. translation (world_from_camera f)) (poses.frames p)"

definition out_translations :: "'v manifest \<Rightarrow> vec3 list" where
  "out_translations out = map (\<lambda>f. translation (transform_matrix f)) (manifest.frames out)"

text \<open>
  A second run of the converter reads the first run's manifest as a pose file: each
  \<^verbatim>\<open>file_path\<close> as \<^verbatim>\<open>rgb_path\<close>, each \<^verbatim>\<open>transform_matrix\<close> as
  \<^verbatim>\<open>world_from_camera\<close>.
\<close>

definition as_pose_frame :: "out_frame \<Rightarrow> pose_frame" where
  "as_pose_frame f = \<lparr>rgb_path = file_path f, world_from_camera = transform_matrix f\<rparr>"

definition as_poses :: "'v manifest \<Rightarrow> poses" where
  "as_poses out = \<lparr>poses.frames = map as_pose_frame (manifest.frames out)\<rparr>"

text \<open>The translations of the manifest a run writes, or the error that ends the run.\<close>

definition main_translations :: "poses \<Rightarrow> 'v intrinsics \<Rightarrow> error + vec3 list" where
  "main_translations p i =
     (case main p i of Inl e \<Rightarrow> Inl e | Inr out \<Rightarrow> Inr (out_translations out))"

text \<open>
  Two successive runs: the result of the second run on the manifest of the first, and the
  \<^verbatim>\<open>center\<close>, \<^verbatim>\<open>max_dist\<close> and \<^verbatim>\<open>scale_factor\<close> the second run computes.
\<close>

definition rerun :: "poses \<Rightarrow> 'v intrinsics \<Rightarrow> error + 'v manifest" where
  "rerun p i = (case main p i of Inl e \<Rightarrow> Inl e | Inr out \<Rightarrow> main (as_poses out) i)"

definition rerun_normalization ::
  "poses \<Rightarrow> 'v intrinsics \<Rightarrow> error + (vec3 \<times> float64 \<times> float64)" where
  "rerun_normalization p i =
     (case main p i of
        Inl e \<Rightarrow> Inl e
      | Inr out \<Rightarrow> normalization (collect_c2w (poses.frames (as_poses out))))"

text \<open>A vector multiplied by a scalar, as \<^verbatim>\<open>c2w[:3, 3] *= scale_factor\<close> does.\<close>

fun vmul :: "vec3 \<Rightarrow> float64 \<Rightarrow> vec3" where
  "vmul (Vec3 a b c) s = Vec3 (fmul a s) (fmul b s) (fmul c s)"

text \<open>A vector of float64 values, and a vector none of whose components is finite.\<close>

fun float64_vec :: "vec3 \<Rightarrow> bool" where
  "float64_vec (Vec3 a b c) = (float64_value a \<and> float64_value b \<and> float64_value c)"

fun nowhere_finite :: "vec3 \<Rightarrow> bool" where
  "nowhere_finite (Vec3 a b c) = (\<not> is_finite a \<and> \<not> is_finite b \<and> \<not> is_finite c)"

subsection \<open>The normalization parameters as the specification words them\<close>





subsection \<open>Sample inputs\<close>

text \<open>A frame with the identity rotation and the given translation.\<close>

definition frame_at :: "string \<Rightarrow> real \<Rightarrow> real \<Rightarrow> real \<Rightarrow> pose_frame" where
  "frame_at path x y z =
     \<lparr>rgb_path = path,
      world_from_camera =
        Mat4 (Row (Fin 1) (Fin 0) (Fin 0) (Fin x))
             (Row (Fin 0) (Fin 1) (Fin 0) (Fin y))
             (Row (Fin 0) (Fin 0) (Fin 1) (Fin z))
             (Row (Fin 0) (Fin 0) (Fin 0) (Fin 1))\<rparr>"

definition sample_intrinsics :: "int intrinsics" where
  "sample_intrinsics =
     \<lparr>fx = 500, fy = 501, cx = 320, cy = 240, width = 640, height = 480\<rparr>"

definition sample_poses :: poses where
  "sample_poses =
     \<lparr>poses.frames =
        [frame_at ''images/frame_00000.png'' 0 0 0,
         frame_at ''images/frame_00001.png'' 4 0 0]\<rparr>"

definition ring_poses :: poses where
  "ring_poses =
     \<lparr>poses.frames =
        [frame_at ''images/frame_00000.png'' 0 0 0,
         frame_at ''images/frame_00001.png'' 6 0 0,
         frame_at ''images/frame_00002.png'' 0 0 0]\<rparr>"

definition coincident_poses :: poses where
  "coincident_poses =
     \<lparr>poses.frames =
        [frame_at ''images/frame_00000.png'' 1 1 1,
         frame_at ''images/frame_00001.png'' 1 1 1]\<rparr>"

definition single_pose :: poses where
  "single_pose = \<lparr>poses.frames = [frame_at ''images/frame_00000.png'' 3 0 0]\<rparr>"

definition empty_poses :: poses where
  "empty_poses = \<lparr>poses.frames = []\<rparr>"

section \<open>Rounding leaves small integers unchanged\<close>

lemma round_even_of_int: "round_even (of_int k) = k"
  by (simp add: round_even_def)

lemma exponent64_of_int:
  assumes "n \<noteq> 0" and "\<bar>n\<bar> < 2 ^ 53"
  shows "0 \<le> exponent64 (of_int n)" and "exponent64 (of_int n) \<le> 52"
proof -
  let ?x = "\<bar>of_int n\<bar> :: real"
  have x1: "1 \<le> ?x" using assms(1) by (simp flip: of_int_abs) 
  have x2: "?x < 2 ^ 53"
  proof -
    have "of_int \<bar>n\<bar> < (of_int (2 ^ 53) :: real)" using assms(2) by (simp only: of_int_less_iff)
    then show ?thesis by simp
  qed
  have "0 \<le> log 2 ?x" using x1 by simp
  then have f0: "0 \<le> \<lfloor>log 2 ?x\<rfloor>" by simp
  have "?x < 2 powr 53" using x2 by simp
  then have "log 2 ?x < 53" using x1 by (simp add: log_less_iff)
  then have f1: "\<lfloor>log 2 ?x\<rfloor> < 53" by (simp add: floor_less_iff)
  show "0 \<le> exponent64 (of_int n)" using f0 by (simp add: exponent64_def)
  show "exponent64 (of_int n) \<le> 52" using f1 by (simp add: exponent64_def)
qed

lemma round64_of_int:
  assumes "\<bar>n\<bar> < 2 ^ 53"
  shows "round64 (of_int n) = Fin (of_int n)"
proof (cases "n = 0")
  case True
  then show ?thesis by (simp add: round64_def)
next
  case False
  let ?e = "exponent64 (of_int n)"
  define j where "j = nat (52 - ?e)"
  from exponent64_of_int [OF False assms] have e: "0 \<le> ?e" "?e \<le> 52" by simp_all
  then have ej: "(of_int (?e - 52) :: real) = - real j" by (simp add: j_def)
  have q: "(2::real) powr of_int (?e - 52) = 1 / 2 ^ j"
    unfolding ej by (simp add: powr_minus powr_realpow inverse_eq_divide)
  have d: "of_int n / (1 / 2 ^ j) = (of_int (n * 2 ^ j) :: real)"
    by simp
  have y: "of_int (round_even (of_int n / (1 / 2 ^ j))) * (1 / 2 ^ j) = (of_int n :: real)"
    unfolding d round_even_of_int by simp
  have "\<bar>of_int n :: real\<bar> < 2 ^ 53"
  proof -
    have "of_int \<bar>n\<bar> < (of_int (2 ^ 53) :: real)" using assms by (simp only: of_int_less_iff)
    then show ?thesis by simp
  qed
  also have "(2::real) ^ 53 \<le> 2 ^ 1024" by (rule power_increasing) simp_all
  finally have b: "\<not> overflow_threshold \<le> \<bar>of_int n :: real\<bar>"
    by (simp add: overflow_threshold_def)
  have nz: "(of_int n :: real) \<noteq> 0" using False by simp
  show ?thesis
    unfolding round64_def Let_def q y using nz b by simp
qed

lemma round64_0: "round64 0 = Fin 0"
  by (simp add: round64_def)

lemma round64_1: "round64 1 = Fin 1"
  using round64_of_int [of 1] by simp

lemma round64_numeral:
  "(numeral k :: int) < 9007199254740992 \<Longrightarrow> round64 (numeral k) = Fin (numeral k)"
  using round64_of_int [of "numeral k"] by simp

lemma round64_neg_numeral:
  "(numeral k :: int) < 9007199254740992 \<Longrightarrow> round64 (- numeral k) = Fin (- numeral k)"
  using round64_of_int [of "- numeral k"] by simp

lemmas round64_simps = round64_0 round64_1 round64_numeral round64_neg_numeral

section \<open>The two loops as maps\<close>

lemma collect_c2w_map: "collect_c2w fs = map world_from_camera fs"
  by (induction fs) simp_all

lemma collect_buffer_map:
  "collect_buffer fs = map (\<lambda>f. (rgb_path f, world_from_camera f)) fs"
  by (induction fs) simp_all

lemma apply_transformation_map:
  "apply_transformation buf c s =
     map (\<lambda>b. \<lparr>file_path = fst b,
                transform_matrix = imul_translation (isub_translation (snd b) c) s\<rparr>) buf"
  by (induction buf) simp_all

lemma normalization_nonempty:
  "ms \<noteq> [] \<Longrightarrow> \<exists>c d. normalization ms = Inr (c, d, fdiv (Fin 2) d)"
  by (cases ms) (simp_all add: normalization_def Let_def)

lemma main_frames:
  assumes "main p i = Inr out"
  obtains c d s where "normalization (collect_c2w (poses.frames p)) = Inr (c, d, s)"
    and "manifest.frames out = apply_transformation (collect_buffer (poses.frames p)) c s"
  using assms by (auto simp: main_def Let_def split: sum.splits)

lemma main_Inr:
  assumes "poses.frames p \<noteq> []"
  shows "\<exists>out. main p i = Inr out"
proof -
  from assms have "collect_c2w (poses.frames p) \<noteq> []" by (simp add: collect_c2w_map)
  from normalization_nonempty [OF this] obtain c d where
    "normalization (collect_c2w (poses.frames p)) = Inr (c, d, fdiv (Fin 2) d)" by blast
  then show ?thesis by (simp add: main_def Let_def)
qed

lemma rotation_transformed:
  "rotation (imul_translation (isub_translation m c) s) = rotation m"
proof -
  obtain r0 r1 r2 r3 where m: "m = Mat4 r0 r1 r2 r3" by (cases m) auto
  obtain x y z where c: "c = Vec3 x y z" by (cases c) auto
  show ?thesis
    by (cases r0; cases r1; cases r2) (simp add: m c)
qed

lemma bottom_row_transformed:
  "bottom_row (imul_translation (isub_translation m c) s) = bottom_row m"
proof -
  obtain r0 r1 r2 r3 where m: "m = Mat4 r0 r1 r2 r3" by (cases m) auto
  obtain x y z where c: "c = Vec3 x y z" by (cases c) auto
  show ?thesis by (simp add: m c)
qed

lemma translation_transformed:
  "translation (imul_translation (isub_translation m c) s) = vmul (vsub (translation m) c) s"
proof -
  obtain r0 r1 r2 r3 where m: "m = Mat4 r0 r1 r2 r3" by (cases m) auto
  obtain x y z where c: "c = Vec3 x y z" by (cases c) auto
  show ?thesis
    by (cases r0; cases r1; cases r2) (simp add: m c)
qed

lemma main_of_normalization:
  assumes "normalization (collect_c2w (poses.frames p)) = Inr (c, d, s)"
  shows "\<exists>out. main p i = Inr out
           \<and> manifest.frames out
               = apply_transformation (collect_buffer (poses.frames p)) c s"
  using assms by (simp add: main_def Let_def)

lemma out_translations_of_frames:
  assumes "manifest.frames out = apply_transformation (collect_buffer (poses.frames p)) c s"
  shows "out_translations out = map (\<lambda>t. vmul (vsub t c) s) (in_translations p)"
  by (simp add: out_translations_def in_translations_def assms apply_transformation_map
      collect_buffer_map comp_def translation_transformed)

lemma translations_collect:
  "map translation (collect_c2w (poses.frames p)) = in_translations p"
  by (simp add: collect_c2w_map in_translations_def comp_def)

lemma main_translations_Inr:
  "main_translations p i = Inr ts \<Longrightarrow> \<exists>out. main p i = Inr out \<and> out_translations out = ts"
  by (auto simp: main_translations_def split: sum.splits)

lemma in_translations_sample:
  "in_translations sample_poses = [Vec3 (Fin 0) (Fin 0) (Fin 0), Vec3 (Fin 4) (Fin 0) (Fin 0)]"
  by (simp add: in_translations_def sample_poses_def frame_at_def)

section \<open>The mean and the maximum\<close>



lemma fmax_NaN_left: "fmax NaN b = NaN"
  by simp











section \<open>Every result of an operation is a float64 value\<close>

lemma round_even_bounds:
  shows "of_int (round_even z) \<le> z + 1 / 2" and "z - 1 / 2 \<le> of_int (round_even z)"
  unfolding round_even_def Let_def by (auto; linarith)+

lemma round_even_abs_le:
  assumes "\<bar>z\<bar> < of_int n"
  shows "\<bar>round_even z\<bar> \<le> n"
proof -
  have "round_even z = \<lfloor>z\<rfloor> \<or> round_even z = \<lfloor>z\<rfloor> + 1"
    by (auto simp: round_even_def Let_def)
  moreover have "\<lfloor>z\<rfloor> < n" using assms by (simp add: floor_less_iff abs_less_iff)
  moreover have "- n \<le> \<lfloor>z\<rfloor>" using assms by (simp add: le_floor_iff abs_less_iff)
  ultimately show ?thesis by auto
qed

lemma exponent64_ge: "- 1022 \<le> exponent64 x"
  by (simp add: exponent64_def)

lemma abs_less_exponent64:
  assumes "x \<noteq> 0"
  shows "\<bar>x\<bar> < 2 powr of_int (exponent64 x + 1)"
proof -
  have "log 2 \<bar>x\<bar> < of_int (\<lfloor>log 2 \<bar>x\<bar>\<rfloor> + 1)" by linarith
  also have "\<dots> \<le> of_int (exponent64 x + 1)"
    by (simp add: exponent64_def)
  finally have "log 2 \<bar>x\<bar> < of_int (exponent64 x + 1)" .
  then show ?thesis using assms by (simp add: log_less_iff)
qed

lemma round64_exact:
  assumes "y \<noteq> 0" and "y / 2 powr of_int (exponent64 y - 52) = of_int z"
    and "\<not> overflow_threshold \<le> \<bar>y\<bar>"
  shows "round64 y = Fin y"
proof -
  let ?q = "2 powr of_int (exponent64 y - 52) :: real"
  have q: "0 < ?q" by simp
  from assms(2) have "of_int z * ?q = y"
    using q by (simp add: field_simps)
  then have "of_int (round_even (y / ?q)) * ?q = y"
    by (simp only: assms(2) round_even_of_int)
  then show ?thesis
    unfolding round64_def Let_def using assms(1,3) by simp
qed

lemma floor_log_scaled:
  assumes "m \<noteq> 0"
  shows "\<lfloor>log 2 \<bar>of_int m * 2 powr of_int k\<bar>\<rfloor> = \<lfloor>log 2 \<bar>of_int m\<bar>\<rfloor> + k"
proof -
  have "\<bar>of_int m * 2 powr of_int k\<bar> = \<bar>of_int m :: real\<bar> * 2 powr of_int k"
    by (simp add: abs_mult)
  moreover have "log 2 (\<bar>of_int m :: real\<bar> * 2 powr of_int k) = log 2 \<bar>of_int m\<bar> + of_int k"
    using assms by (simp add: log_mult)
  ultimately show ?thesis by simp
qed

lemma floor_log_int_bounds:
  assumes "m \<noteq> 0" and "\<bar>m\<bar> < 2 ^ 53"
  shows "0 \<le> \<lfloor>log 2 \<bar>of_int m :: real\<bar>\<rfloor>" and "\<lfloor>log 2 \<bar>of_int m :: real\<bar>\<rfloor> \<le> 52"
proof -
  let ?x = "\<bar>of_int m\<bar> :: real"
  have x1: "1 \<le> ?x" using assms(1) by (simp flip: of_int_abs)
  have x2: "?x < 2 ^ 53"
  proof -
    have "of_int \<bar>m\<bar> < (of_int (2 ^ 53) :: real)" using assms(2) by (simp only: of_int_less_iff)
    then show ?thesis by simp
  qed
  have "0 \<le> log 2 ?x" using x1 by simp
  then show "0 \<le> \<lfloor>log 2 ?x\<rfloor>" by simp
  have "?x < 2 powr 53" using x2 by simp
  then have "log 2 ?x < 53" using x1 by (simp add: log_less_iff)
  then have "\<lfloor>log 2 ?x\<rfloor> < 53" by (simp add: floor_less_iff)
  then show "\<lfloor>log 2 ?x\<rfloor> \<le> 52" by simp
qed

lemma round64_idem:
  assumes "round64 x = Fin y"
  shows "round64 y = Fin y"
proof (cases "y = 0")
  case True
  then show ?thesis by (simp add: round64_def)
next
  case y0: False
  have x0: "x \<noteq> 0"
  proof
    assume "x = 0"
    with assms have "y = 0" by (simp add: round64_def)
    with y0 show False by simp
  qed
  define e where "e = exponent64 x"
  define k where "k = e - 52"
  define q :: real where "q = 2 powr of_int k"
  define m where "m = round_even (x / q)"
  have q: "0 < q" by (simp add: q_def)
  from assms x0 have y: "y = of_int m * q" and nov: "\<not> overflow_threshold \<le> \<bar>y\<bar>"
    by (auto simp: round64_def Let_def m_def q_def k_def e_def split: if_splits)
  from y y0 have m0: "m \<noteq> 0" by auto
  have e_ge: "- 1022 \<le> e" by (simp add: e_def exponent64_ge)
  have "\<bar>x\<bar> < 2 powr of_int (e + 1)"
    unfolding e_def by (rule abs_less_exponent64 [OF x0])
  also have "(2::real) powr of_int (e + 1) = q * 2 powr 53"
  proof -
    have "(of_int (e + 1) :: real) = of_int k + 53" by (simp add: k_def)
    then show ?thesis by (simp only: q_def powr_add)
  qed
  finally have "\<bar>x / q\<bar> < 2 powr 53"
    using q by (simp add: abs_divide field_simps)
  then have "\<bar>x / q\<bar> < of_int (2 ^ 53)" by simp
  then have mb: "\<bar>m\<bar> \<le> 2 ^ 53" unfolding m_def by (rule round_even_abs_le)
  have fl: "\<lfloor>log 2 \<bar>y\<bar>\<rfloor> = \<lfloor>log 2 \<bar>of_int m :: real\<bar>\<rfloor> + k"
    unfolding y q_def by (rule floor_log_scaled [OF m0])
  have "\<exists>z. y / 2 powr of_int (exponent64 y - 52) = of_int z"
  proof (cases "\<bar>m\<bar> = 2 ^ 53")
    case True
    then have am: "\<bar>of_int m :: real\<bar> = 2 powr 53"
      by (simp flip: of_int_abs)
    have "log 2 ((2::real) powr 53) = 53" by (rule log_powr_cancel) simp_all
    then have "log 2 \<bar>of_int m :: real\<bar> = 53" by (simp only: am)
    then have "\<lfloor>log 2 \<bar>of_int m :: real\<bar>\<rfloor> = 53" by simp
    then have ey: "exponent64 y = e + 1"
      using e_ge by (simp add: exponent64_def fl k_def)
    have "2 powr of_int (exponent64 y - 52) = q * 2"
    proof -
      have "(of_int (exponent64 y - 52) :: real) = of_int k + 1" by (simp add: ey k_def)
      then have "(2::real) powr of_int (exponent64 y - 52) = 2 powr of_int k * 2 powr 1"
        by (simp only: powr_add)
      then show ?thesis by (simp add: q_def)
    qed
    then have r: "y / 2 powr of_int (exponent64 y - 52) = of_int m / 2"
      using q by (simp add: y)
    from True have "even \<bar>m\<bar>" by simp
    then have "even m" by simp
    then obtain z where "m = 2 * z" by (auto elim: evenE)
    then have "of_int m / 2 = (of_int z :: real)" by simp
    with r show ?thesis by auto
  next
    case False
    with mb have "\<bar>m\<bar> < 2 ^ 53" by simp
    from floor_log_int_bounds [OF m0 this]
    have t: "\<lfloor>log 2 \<bar>of_int m :: real\<bar>\<rfloor> \<le> 52" by simp
    have le: "exponent64 y \<le> e"
      using t e_ge by (simp add: exponent64_def fl k_def)
    define j where "j = nat (e - exponent64 y)"
    have "of_int k = of_int (exponent64 y - 52) + real j"
      using le by (simp add: j_def k_def)
    then have qd: "q = 2 powr of_int (exponent64 y - 52) * 2 ^ j"
      by (simp add: q_def powr_add powr_realpow)
    define d :: real where "d = 2 powr of_int (exponent64 y - 52)"
    have d0: "d \<noteq> 0" by (simp add: d_def)
    from qd have "q = d * 2 ^ j" by (simp only: d_def)
    then have "y / d = of_int m * 2 ^ j" using d0 by (simp add: y)
    then have "y / 2 powr of_int (exponent64 y - 52) = of_int (m * 2 ^ j)"
      by (simp add: d_def)
    then show ?thesis by blast
  qed
  then obtain z where "y / 2 powr of_int (exponent64 y - 52) = of_int z" by blast
  from round64_exact [OF y0 this nov] show ?thesis .
qed

lemma float64_value_round64: "float64_value (round64 x)"
proof (cases "round64 x")
  case (Fin y)
  from round64_idem [OF this] show ?thesis by (simp add: Fin)
qed simp_all

lemma float64_value_fmul: "float64_value (fmul a b)"
  by (cases a; cases b) (simp_all add: float64_value_round64)

lemma float64_vec_vmul: "float64_vec (vmul v s)"
  by (cases v) (simp add: float64_value_fmul)

lemma main_float64:
  assumes "main p i = Inr out"
  shows "list_all float64_vec (out_translations out)"
proof -
  from assms obtain c d s where
    "manifest.frames out = apply_transformation (collect_buffer (poses.frames p)) c s"
    by (rule main_frames)
  from out_translations_of_frames [OF this] show ?thesis
    by (simp add: list_all_iff float64_vec_vmul)
qed

section \<open>Runs with max_dist 0, and runs that change nothing\<close>

lemma main_record:
  assumes "main p i = Inr out"
  shows "out = \<lparr>fl_x = fx i, fl_y = fy i,
             cx = intrinsics.cx i, cy = intrinsics.cy i,
             w = width i, h = height i,
             sk_x = Fin 0, sk_y = Fin 0, k1 = Fin 0, k2 = Fin 0, p1 = Fin 0, p2 = Fin 0,
             is_fisheye = False,
             sphere_center = [Fin 0, Fin 0, Fin 0],
             sphere_radius = Fin 1,
             aabb_scale = 1,
             frames = manifest.frames out\<rparr>"
  using assms by (auto simp: main_def Let_def split: sum.splits)

lemma main_same_frames:
  assumes "main p i = Inr out" and "main q i = Inr out'"
    and "manifest.frames out' = manifest.frames out"
  shows "out' = out"
  using main_record [OF assms(1)] main_record [OF assms(2)] assms(3) by simp

lemma in_translations_as_poses: "in_translations (as_poses out) = out_translations out"
  by (simp add: in_translations_def out_translations_def as_poses_def as_pose_frame_def comp_def)

lemma in_translations_coincident:
  "in_translations coincident_poses
     = [Vec3 (Fin 1) (Fin 1) (Fin 1), Vec3 (Fin 1) (Fin 1) (Fin 1)]"
  by (simp add: in_translations_def coincident_poses_def frame_at_def)

lemma normalization_scale:
  "normalization ms = Inr (c, d, s) \<Longrightarrow> s = fdiv (Fin 2) d"
  by (auto simp: normalization_def Let_def split: if_splits sum.splits)

lemma fmul_PInf_not_finite: "\<not> is_finite (fmul a PInf)"
  by (cases a) simp_all

lemma vmul_PInf: "nowhere_finite (vmul v PInf)"
  by (cases v) (simp add: fmul_PInf_not_finite)

lemma zero_max_dist_run:
  assumes "normalization (collect_c2w (poses.frames p)) = Inr (center, Fin 0, scale_factor)"
  shows "scale_factor = PInf
       \<and> (\<exists>out. main p i = Inr out
              \<and> length (manifest.frames out) = length (poses.frames p)
              \<and> (\<forall>t\<in>set (out_translations out). nowhere_finite t))"
proof -
  from normalization_scale [OF assms] have s: "scale_factor = PInf" by simp
  from main_of_normalization [OF assms, of i] obtain out where
    out: "main p i = Inr out"
    and fr: "manifest.frames out
               = apply_transformation (collect_buffer (poses.frames p)) center scale_factor"
    by blast
  have len: "length (manifest.frames out) = length (poses.frames p)"
    by (simp add: fr apply_transformation_map collect_buffer_map)
  have "\<forall>t\<in>set (out_translations out). nowhere_finite t"
    by (simp add: out_translations_of_frames [OF fr] s vmul_PInf)
  with s out len show ?thesis by blast
qed

lemma normalization_coincident_poses:
  "normalization (collect_c2w (poses.frames coincident_poses))
     = Inr (Vec3 (Fin 1) (Fin 1) (Fin 1), Fin 0, PInf)"
proof -
  have "map translation (collect_c2w (poses.frames coincident_poses))
          = [Vec3 (Fin 1) (Fin 1) (Fin 1), Vec3 (Fin 1) (Fin 1) (Fin 1)]"
    by (simp add: translations_collect in_translations_coincident)
  moreover have "collect_c2w (poses.frames coincident_poses) \<noteq> []"
    by (simp add: coincident_poses_def)
  ultimately show ?thesis
    by (simp add: normalization_def Let_def np_mean_def fsub_def round64_simps)
qed

lemma fsub_zero: "float64_value a \<Longrightarrow> fsub a (Fin 0) = a"
  by (cases a) (simp_all add: fsub_def)

lemma fmul_one: "float64_value a \<Longrightarrow> fmul a (Fin 1) = a"
  by (cases a) simp_all

lemma transform_identity:
  assumes "float64_vec (translation m)"
  shows "imul_translation (isub_translation m (Vec3 (Fin 0) (Fin 0) (Fin 0))) (Fin 1) = m"
proof -
  obtain r0 r1 r2 r3 where m: "m = Mat4 r0 r1 r2 r3" by (cases m) auto
  obtain a0 a1 a2 a3 where r0: "r0 = Row a0 a1 a2 a3" by (cases r0) auto
  obtain b0 b1 b2 b3 where r1: "r1 = Row b0 b1 b2 b3" by (cases r1) auto
  obtain c0 c1 c2 c3 where r2: "r2 = Row c0 c1 c2 c3" by (cases r2) auto
  from assms have v: "float64_value a3" "float64_value b3" "float64_value c3"
    by (simp_all add: m r0 r1 r2)
  have "fmul (fsub a3 (Fin 0)) (Fin 1) = a3"
    and "fmul (fsub b3 (Fin 0)) (Fin 1) = b3"
    and "fmul (fsub c3 (Fin 0)) (Fin 1) = c3"
    using v by (simp_all add: fsub_zero fmul_one)
  then show ?thesis
    by (simp add: m r0 r1 r2)
qed

lemma fixed_point_run:
  assumes "main p i = Inr out"
    and "rerun_normalization p i
           = Inr (Vec3 (Fin 0) (Fin 0) (Fin 0), max_dist, Fin 1)"
  shows "rerun p i = Inr out"
proof -
  let ?q = "as_poses out"
  from assms(1,2) have n2: "normalization (collect_c2w (poses.frames ?q))
                              = Inr (Vec3 (Fin 0) (Fin 0) (Fin 0), max_dist, Fin 1)"
    by (simp add: rerun_normalization_def)
  from main_of_normalization [OF n2, of i] obtain out' where
    out': "main ?q i = Inr out'"
    and fr': "manifest.frames out'
                = apply_transformation (collect_buffer (poses.frames ?q))
                    (Vec3 (Fin 0) (Fin 0) (Fin 0)) (Fin 1)"
    by blast
  have vals: "\<forall>f\<in>set (manifest.frames out). float64_vec (translation (transform_matrix f))"
    using main_float64 [OF assms(1)] by (simp add: out_translations_def list_all_iff)
  have "manifest.frames out'
          = map (\<lambda>f. \<lparr>file_path = file_path f,
                        transform_matrix =
                          imul_translation
                            (isub_translation (transform_matrix f)
                               (Vec3 (Fin 0) (Fin 0) (Fin 0))) (Fin 1)\<rparr>)
              (manifest.frames out)"
    by (simp add: fr' apply_transformation_map collect_buffer_map as_poses_def
        as_pose_frame_def comp_def)
  also have "\<dots> = manifest.frames out"
    by (rule map_idI) (simp add: vals transform_identity)
  finally have "manifest.frames out' = manifest.frames out" .
  from main_same_frames [OF assms(1) out' this] have "out' = out" .
  with out' show ?thesis by (simp add: rerun_def assms(1))
qed

section \<open>Sample runs\<close>

lemma normalization_sample:
  "normalization (collect_c2w (poses.frames sample_poses))
     = Inr (Vec3 (Fin 2) (Fin 0) (Fin 0), Fin 2, Fin 1)"
proof -
  have "map translation (collect_c2w (poses.frames sample_poses))
          = [Vec3 (Fin 0) (Fin 0) (Fin 0), Vec3 (Fin 4) (Fin 0) (Fin 0)]"
    by (simp add: translations_collect in_translations_sample)
  moreover have "collect_c2w (poses.frames sample_poses) \<noteq> []"
    by (simp add: sample_poses_def)
  ultimately show ?thesis
    by (simp add: normalization_def Let_def np_mean_def fsub_def round64_simps)
qed

lemma sample_run:
  obtains out where "main sample_poses i = Inr out"
    and "out_translations out
           = [Vec3 (Fin (- 2)) (Fin 0) (Fin 0), Vec3 (Fin 2) (Fin 0) (Fin 0)]"
proof -
  from main_of_normalization [OF normalization_sample, of i] obtain out where
    out: "main sample_poses i = Inr out"
    and fr: "manifest.frames out = apply_transformation (collect_buffer (poses.frames sample_poses))
               (Vec3 (Fin 2) (Fin 0) (Fin 0)) (Fin 1)"
    by blast
  have "out_translations out
          = [Vec3 (Fin (- 2)) (Fin 0) (Fin 0), Vec3 (Fin 2) (Fin 0) (Fin 0)]"
    by (simp add: out_translations_of_frames [OF fr] in_translations_sample fsub_def
        round64_simps)
  with out show ?thesis by (rule that)
qed

lemma main_translations_sample:
  "main_translations sample_poses i
     = Inr [Vec3 (Fin (- 2)) (Fin 0) (Fin 0), Vec3 (Fin 2) (Fin 0) (Fin 0)]"
proof -
  obtain out where "main sample_poses i = Inr out"
    and "out_translations out
           = [Vec3 (Fin (- 2)) (Fin 0) (Fin 0), Vec3 (Fin 2) (Fin 0) (Fin 0)]"
    by (rule sample_run)
  then show ?thesis by (simp add: main_translations_def)
qed

lemma rerun_normalization_sample:
  "rerun_normalization sample_poses i
     = Inr (Vec3 (Fin 0) (Fin 0) (Fin 0), Fin 2, Fin 1)"
proof -
  obtain out where out: "main sample_poses i = Inr out"
    and ts: "out_translations out
               = [Vec3 (Fin (- 2)) (Fin 0) (Fin 0), Vec3 (Fin 2) (Fin 0) (Fin 0)]"
    by (rule sample_run)
  let ?ms = "collect_c2w (poses.frames (as_poses out))"
  have tr: "map translation ?ms
              = [Vec3 (Fin (- 2)) (Fin 0) (Fin 0), Vec3 (Fin 2) (Fin 0) (Fin 0)]"
    by (simp add: translations_collect in_translations_as_poses ts)
  then have ne: "?ms \<noteq> []" by auto
  have "normalization ?ms = Inr (Vec3 (Fin 0) (Fin 0) (Fin 0), Fin 2, Fin 1)"
    using ne by (simp add: normalization_def Let_def tr np_mean_def fsub_def round64_simps)
  then show ?thesis by (simp add: rerun_normalization_def out)
qed

lemma rerun_sample: "rerun sample_poses i = main sample_poses i"
proof -
  obtain out where out: "main sample_poses i = Inr out"
    and ts: "out_translations out
               = [Vec3 (Fin (- 2)) (Fin 0) (Fin 0), Vec3 (Fin 2) (Fin 0) (Fin 0)]"
    by (rule sample_run)
  from fixed_point_run [OF out rerun_normalization_sample] out
  show ?thesis by simp
qed

section \<open>Shape of the manifest\<close>

text \<open>
  C1: whenever the pose file has at least one frame, the run writes a manifest whose
  \<open>frames\<close> has as many entries as the input, and the file paths of the output frames
  are the \<open>rgb_path\<close>s of the input frames, in the same order.
\<close>

theorem frames_count_and_order:
  assumes "poses.frames p \<noteq> []"
  shows "\<exists>out. main p i = Inr out
           \<and> length (manifest.frames out) = length (poses.frames p)
           \<and> map file_path (manifest.frames out) = map rgb_path (poses.frames p)"
proof -
  from main_Inr [OF assms] obtain out where out: "main p i = Inr out" by blast
  from out obtain c d s where
    fr: "manifest.frames out = apply_transformation (collect_buffer (poses.frames p)) c s"
    by (rule main_frames)
  have "map file_path (manifest.frames out) = map rgb_path (poses.frames p)"
    by (simp add: fr apply_transformation_map collect_buffer_map comp_def)
  moreover from this have "length (manifest.frames out) = length (poses.frames p)"
    by (metis length_map)
  ultimately show ?thesis using out by blast
qed

theorem frames_count_and_order_witness:
  "poses.frames ring_poses \<noteq> []
   \<and> (\<exists>out. main ring_poses sample_intrinsics = Inr out
         \<and> length (manifest.frames out) = 3
         \<and> map file_path (manifest.frames out)
             = [''images/frame_00000.png'', ''images/frame_00001.png'',
                ''images/frame_00002.png''])"
proof -
  have ne: "poses.frames ring_poses \<noteq> []"
    by (simp add: ring_poses_def)
  from frames_count_and_order [OF ne, of sample_intrinsics] obtain out where
    "main ring_poses sample_intrinsics = Inr out"
    "length (manifest.frames out) = length (poses.frames ring_poses)"
    "map file_path (manifest.frames out) = map rgb_path (poses.frames ring_poses)"
    by blast
  then have "main ring_poses sample_intrinsics = Inr out
      \<and> length (manifest.frames out) = 3
      \<and> map file_path (manifest.frames out)
          = [''images/frame_00000.png'', ''images/frame_00001.png'',
             ''images/frame_00002.png'']"
    by (simp add: ring_poses_def frame_at_def)
  with ne show ?thesis by (intro conjI exI [of _ out]) simp_all
qed

text \<open>
  C9: the manifest copies the six intrinsics (fx to fl_x, fy to fl_y, cx, cy, width to w,
  height to h) and sets the other fields to constants: zero skew and distortion, not
  fisheye, sphere centre at the origin, sphere radius 1.0, aabb_scale 1.
\<close>

theorem manifest_fields:
  assumes "main p i = Inr out"
  shows "fl_x out = fx i \<and> fl_y out = fy i \<and> manifest.cx out = intrinsics.cx i
       \<and> manifest.cy out = intrinsics.cy i \<and> w out = width i \<and> h out = height i
       \<and> sk_x out = Fin 0 \<and> sk_y out = Fin 0 \<and> k1 out = Fin 0 \<and> k2 out = Fin 0
       \<and> p1 out = Fin 0 \<and> p2 out = Fin 0 \<and> is_fisheye out = False
       \<and> sphere_center out = [Fin 0, Fin 0, Fin 0] \<and> sphere_radius out = Fin 1
       \<and> aabb_scale out = 1"
  using assms by (auto simp: main_def Let_def split: sum.splits)

theorem manifest_fields_witness:
  "\<exists>out. main single_pose sample_intrinsics = Inr out
     \<and> fl_x out = 500 \<and> fl_y out = 501 \<and> manifest.cx out = 320 \<and> manifest.cy out = 240
     \<and> w out = 640 \<and> h out = 480
     \<and> sk_x out = Fin 0 \<and> sk_y out = Fin 0 \<and> k1 out = Fin 0 \<and> k2 out = Fin 0
     \<and> p1 out = Fin 0 \<and> p2 out = Fin 0 \<and> is_fisheye out = False
     \<and> sphere_center out = [Fin 0, Fin 0, Fin 0] \<and> sphere_radius out = Fin 1
     \<and> aabb_scale out = 1"
proof -
  have "poses.frames single_pose \<noteq> []" by (simp add: single_pose_def)
  from main_Inr [OF this] obtain out where out: "main single_pose sample_intrinsics = Inr out"
    by blast
  from manifest_fields [OF out] out show ?thesis
    by (simp add: sample_intrinsics_def)
qed

text \<open>
  C10: with an empty \<open>frames\<close> array the run ends with an IndexError in the normalization
  step (the index \<^verbatim>\<open>all_c2w[:, :3, 3]\<close> of line 70), so no manifest is written.
\<close>

theorem empty_frames_fail:
  "poses.frames p = [] \<Longrightarrow> main p i = Inl IndexError"
  by (simp add: main_def normalization_def)

theorem empty_frames_fail_witness:
  "poses.frames empty_poses = [] \<and> main empty_poses sample_intrinsics = Inl IndexError"
  using empty_frames_fail [of empty_poses sample_intrinsics]
  by (simp add: empty_poses_def)

section \<open>Rotation and translation\<close>

text \<open>
  C4: for every frame, the rotation block (rows 0 to 2, columns 0 to 2) of the output
  \<open>transform_matrix\<close> is the rotation block of the input \<open>world_from_camera\<close>, entry
  for entry, and so is the bottom row: only the translation column of rows 0 to 2 changes.
\<close>

theorem rotation_block_preserved:
  assumes "main p i = Inr out" and "k < length (poses.frames p)"
  shows "rotation (transform_matrix (manifest.frames out ! k))
           = rotation (world_from_camera (poses.frames p ! k))
       \<and> bottom_row (transform_matrix (manifest.frames out ! k))
           = bottom_row (world_from_camera (poses.frames p ! k))"
proof -
  from assms(1) obtain c d s where
    fr: "manifest.frames out = apply_transformation (collect_buffer (poses.frames p)) c s"
    by (rule main_frames)
  show ?thesis
    using assms(2)
    by (simp add: fr apply_transformation_map collect_buffer_map
        rotation_transformed bottom_row_transformed)
qed

theorem rotation_block_preserved_witness:
  "\<exists>out. main ring_poses sample_intrinsics = Inr out
     \<and> (1::nat) < length (poses.frames ring_poses)
     \<and> rotation (transform_matrix (manifest.frames out ! 1))
         = ((Fin 1, Fin 0, Fin 0), (Fin 0, Fin 1, Fin 0), (Fin 0, Fin 0, Fin 1))
     \<and> bottom_row (transform_matrix (manifest.frames out ! 1))
         = Row (Fin 0) (Fin 0) (Fin 0) (Fin 1)"
proof -
  have ne: "poses.frames ring_poses \<noteq> []" by (simp add: ring_poses_def)
  from main_Inr [OF ne] obtain out where out: "main ring_poses sample_intrinsics = Inr out"
    by blast
  have k: "(1::nat) < length (poses.frames ring_poses)" by (simp add: ring_poses_def)
  from rotation_block_preserved [OF out k] out k show ?thesis
    by (intro exI [of _ out]) (simp add: ring_poses_def frame_at_def)
qed

text \<open>
  C7: for two frames with translations (0,0,0) and (4,0,0), whatever their rotations,
  center is (2,0,0), max_dist is 2, scale_factor is 1.0, and the output translations are
  (-2,0,0) and (2,0,0), in that order.
\<close>

theorem two_frame_scenario:
  assumes "in_translations p = [Vec3 (Fin 0) (Fin 0) (Fin 0), Vec3 (Fin 4) (Fin 0) (Fin 0)]"
  shows "normalization (collect_c2w (poses.frames p))
           = Inr (Vec3 (Fin 2) (Fin 0) (Fin 0), Fin 2, Fin 1)
       \<and> (\<exists>out. main p i = Inr out
              \<and> out_translations out
                  = [Vec3 (Fin (- 2)) (Fin 0) (Fin 0), Vec3 (Fin 2) (Fin 0) (Fin 0)])"
proof -
  let ?ms = "collect_c2w (poses.frames p)"
  have tr: "map translation ?ms = [Vec3 (Fin 0) (Fin 0) (Fin 0), Vec3 (Fin 4) (Fin 0) (Fin 0)]"
    using assms by (simp add: in_translations_def collect_c2w_map comp_def)
  then have ne: "?ms \<noteq> []" by auto
  have n: "normalization ?ms = Inr (Vec3 (Fin 2) (Fin 0) (Fin 0), Fin 2, Fin 1)"
    using ne by (simp add: normalization_def Let_def tr np_mean_def fsub_def round64_simps)
  from main_of_normalization [OF n, of i] obtain out where
    out: "main p i = Inr out"
    and fr: "manifest.frames out = apply_transformation (collect_buffer (poses.frames p))
               (Vec3 (Fin 2) (Fin 0) (Fin 0)) (Fin 1)"
    by blast
  have "out_translations out = [Vec3 (Fin (- 2)) (Fin 0) (Fin 0), Vec3 (Fin 2) (Fin 0) (Fin 0)]"
    by (simp add: out_translations_of_frames [OF fr] assms fsub_def round64_simps)
  with n out show ?thesis by blast
qed

theorem two_frame_scenario_witness:
  "in_translations sample_poses = [Vec3 (Fin 0) (Fin 0) (Fin 0), Vec3 (Fin 4) (Fin 0) (Fin 0)]
   \<and> normalization (collect_c2w (poses.frames sample_poses))
       = Inr (Vec3 (Fin 2) (Fin 0) (Fin 0), Fin 2, Fin 1)
   \<and> (\<exists>out. main sample_poses sample_intrinsics = Inr out
          \<and> out_translations out
              = [Vec3 (Fin (- 2)) (Fin 0) (Fin 0), Vec3 (Fin 2) (Fin 0) (Fin 0)])"
  using two_frame_scenario [OF in_translations_sample, of sample_intrinsics]
    in_translations_sample
  by simp

section \<open>The normalization parameters\<close>



section \<open>max_dist 0\<close>

text \<open>
  C5, as amended: when \<^verbatim>\<open>max_dist\<close> is 0, as it is for two frames at (1,1,1), the
  program raises no error: \<^verbatim>\<open>scale_factor\<close> is plus infinity, the run completes and
  writes a manifest with one frame per input frame, and no component of any output
  translation is finite (each is NaN or an infinity).
\<close>

theorem zero_max_dist_no_error:
  assumes "normalization (collect_c2w (poses.frames p)) = Inr (center, Fin 0, scale_factor)"
  shows "scale_factor = PInf
       \<and> (\<exists>out. main p i = Inr out
              \<and> length (manifest.frames out) = length (poses.frames p)
              \<and> (\<forall>t\<in>set (out_translations out). nowhere_finite t))"
  using assms by (rule zero_max_dist_run)

theorem zero_max_dist_no_error_witness:
  "normalization (collect_c2w (poses.frames coincident_poses))
     = Inr (Vec3 (Fin 1) (Fin 1) (Fin 1), Fin 0, PInf)
   \<and> (\<exists>out. main coincident_poses sample_intrinsics = Inr out
          \<and> length (manifest.frames out) = 2
          \<and> (\<forall>t\<in>set (out_translations out). nowhere_finite t))"
proof -
  have len: "length (poses.frames coincident_poses) = 2"
    by (simp add: coincident_poses_def)
  from zero_max_dist_no_error [OF normalization_coincident_poses, of sample_intrinsics]
    normalization_coincident_poses
  show ?thesis by (simp add: len)
qed

text \<open>
  C5 as stated fails: for two frames with the identical translations (1,1,1) the run raises
  nothing. It computes max_dist 0 and scale_factor plus infinity, and writes a manifest whose
  two translations are (NaN, NaN, NaN).
\<close>

theorem division_by_zero_counterexample:
  "normalization (collect_c2w (poses.frames coincident_poses))
     = Inr (Vec3 (Fin 1) (Fin 1) (Fin 1), Fin 0, PInf)
   \<and> main_translations coincident_poses sample_intrinsics
       = Inr [Vec3 NaN NaN NaN, Vec3 NaN NaN NaN]"
proof -
  from main_of_normalization [OF normalization_coincident_poses, of sample_intrinsics]
  obtain out where
    out: "main coincident_poses sample_intrinsics = Inr out"
    and fr: "manifest.frames out
               = apply_transformation (collect_buffer (poses.frames coincident_poses))
                   (Vec3 (Fin 1) (Fin 1) (Fin 1)) PInf"
    by blast
  have "main_translations coincident_poses sample_intrinsics
          = Inr [Vec3 NaN NaN NaN, Vec3 NaN NaN NaN]"
    by (simp add: main_translations_def out out_translations_of_frames [OF fr]
        in_translations_coincident fsub_def round64_simps)
  with normalization_coincident_poses show ?thesis by simp
qed

section \<open>Two successive runs\<close>

text \<open>
  C6, as amended: two successive runs need not differ. Whenever the second run, which
  reads each \<open>transform_matrix\<close> of the first manifest as \<open>world_from_camera\<close>, computes
  center (0,0,0) and scale_factor 1.0, it writes the manifest of the first run again,
  unchanged.
\<close>

theorem second_run_fixed_point:
  assumes "main p i = Inr out"
    and "rerun_normalization p i
           = Inr (Vec3 (Fin 0) (Fin 0) (Fin 0), max_dist, Fin 1)"
  shows "rerun p i = Inr out"
  using assms by (rule fixed_point_run)

theorem second_run_fixed_point_witness:
  "\<exists>out. main sample_poses sample_intrinsics = Inr out
     \<and> rerun_normalization sample_poses sample_intrinsics
         = Inr (Vec3 (Fin 0) (Fin 0) (Fin 0), Fin 2, Fin 1)
     \<and> rerun sample_poses sample_intrinsics = Inr out"
proof -
  obtain out where out: "main sample_poses sample_intrinsics = Inr out"
    and ts: "out_translations out
               = [Vec3 (Fin (- 2)) (Fin 0) (Fin 0), Vec3 (Fin 2) (Fin 0) (Fin 0)]"
    by (rule sample_run)
  from second_run_fixed_point [OF out rerun_normalization_sample]
    out rerun_normalization_sample
  show ?thesis by blast
qed

text \<open>
  C6 as stated fails: for the two frames with translations (0,0,0) and (4,0,0) the first
  run and the second run both have scale_factor 1.0, and the second run writes the manifest
  of the first, translations (-2,0,0) and (2,0,0), unchanged.
\<close>

theorem not_idempotent_counterexample:
  "normalization (collect_c2w (poses.frames sample_poses))
     = Inr (Vec3 (Fin 2) (Fin 0) (Fin 0), Fin 2, Fin 1)
   \<and> rerun_normalization sample_poses sample_intrinsics
       = Inr (Vec3 (Fin 0) (Fin 0) (Fin 0), Fin 2, Fin 1)
   \<and> main_translations sample_poses sample_intrinsics
       = Inr [Vec3 (Fin (- 2)) (Fin 0) (Fin 0), Vec3 (Fin 2) (Fin 0) (Fin 0)]
   \<and> rerun sample_poses sample_intrinsics = main sample_poses sample_intrinsics"
  using normalization_sample rerun_normalization_sample [of sample_intrinsics]
    main_translations_sample [of sample_intrinsics] rerun_sample [of sample_intrinsics]
  by simp

end
